theory Spec2Isabelle
  imports Complex_Main "HOL-Library.Sublist" "HOL-Library.Char_ord"
    "HOL-Library.List_Lexorder" "HOL-Library.Option_ord"
begin

section \<open>StudyHub backend: the data model\<close>

text \<open>
  The server keeps two MongoDB collections, \<open>Subject\<close> and \<open>Resource\<close>, behind Mongoose
  models (\<open>server.js\<close>, lines 26-50). A collection is a list of documents in natural
  (insertion) order, which is the order \<open>findOne\<close> scans when several documents match.

  Scope of the model. A \<open>Number\<close> field holds an \<open>int\<close> (JavaScript numbers are exact on
  integers below \<open>2^53\<close>); a \<open>String\<close> field holds a byte string, absent when the document
  has no such field. A request body is the record of the schema fields it supplies, already
  of the schema's types. An \<open>_id\<close> is a natural number; a route parameter \<open>:id\<close> either casts
  to an \<open>_id\<close> or is malformed, and Mongoose raises a cast error on a malformed one. The
  store is assumed reachable: the only exceptions modelled are the ones an input causes.
  \<open>updatedAt\<close>, which no route reads, is left out. The second file of the repository is
  an earlier server over the same collections, without counts on subjects and without
  filters; the routes modelled are those of \<open>server.js\<close>.
\<close>

type_synonym oid = nat

record Subject =
  s_id :: oid
  s_name :: "string option"
  s_slug :: "string option"
  s_icon :: "string option"
  s_category :: "string option"
  s_description :: "string option"
  resourceCount :: int
  s_createdAt :: int

record Resource =
  r_id :: oid
  r_name :: "string option"
  r_subject :: "string option"
  r_type :: "string option"
  r_description :: "string option"
  r_link :: "string option"
  r_fileSize :: "string option"
  r_year :: "int option"
  downloads :: int
  views :: int
  r_createdAt :: int

record store =
  subjects :: "Subject list"
  resources :: "Resource list"

definition empty_store :: store where
  "empty_store = \<lparr>subjects = [], resources = []\<rparr>"

text \<open>Request bodies: \<open>None\<close> is a key the body does not have.\<close>

record SubjectBody =
  sb_name :: "string option"
  sb_slug :: "string option"
  sb_icon :: "string option"
  sb_category :: "string option"
  sb_description :: "string option"
  sb_resourceCount :: "int option"

record ResourceBody =
  rb_name :: "string option"
  rb_subject :: "string option"
  rb_type :: "string option"
  rb_description :: "string option"
  rb_link :: "string option"
  rb_fileSize :: "string option"
  rb_year :: "int option"
  rb_downloads :: "int option"
  rb_views :: "int option"

datatype idparam = ObjectId oid | Malformed

text \<open>
  What a handler can answer besides success: the explicit 404 of a handler, and the
  exceptions its \<open>catch\<close> turns into a 500.
\<close>

datatype error =
    NotFound
  | CastError
  | DuplicateKey
  | NegativeSkip
  | RegexError


section \<open>Store primitives\<close>

text \<open>\<open>Model.findOne(cond)\<close>: the first document, in natural order, that matches.\<close>

definition findOne :: "('a \<Rightarrow> bool) \<Rightarrow> 'a list \<Rightarrow> 'a option" where
  "findOne P xs = find P xs"

text \<open>An update of one document: the first match is rewritten in place, the rest is kept.\<close>

fun updateOne :: "('a \<Rightarrow> bool) \<Rightarrow> ('a \<Rightarrow> 'a) \<Rightarrow> 'a list \<Rightarrow> 'a list" where
  "updateOne P f [] = []"
| "updateOne P f (x # xs) = (if P x then f x # xs else x # updateOne P f xs)"

fun deleteOne :: "('a \<Rightarrow> bool) \<Rightarrow> 'a list \<Rightarrow> 'a list" where
  "deleteOne P [] = []"
| "deleteOne P (x # xs) = (if P x then xs else x # deleteOne P xs)"

text \<open>
  \<open>Subject.findOneAndUpdate({ name: n }, { $inc: { resourceCount: d } })\<close>, lines 170 and
  193. A resource without a \<open>subject\<close> gives the condition \<open>{ name: undefined }\<close>, which
  the driver sends as \<open>null\<close> and which selects a subject without a name: equality of the
  two optional strings. When no subject matches nothing is written.
\<close>

definition adjustResourceCount :: "string option \<Rightarrow> int \<Rightarrow> Subject list \<Rightarrow> Subject list" where
  "adjustResourceCount n d ss =
     updateOne (\<lambda>s. s_name s = n) (\<lambda>s. s\<lparr>resourceCount := resourceCount s + d\<rparr>) ss"

definition or_else :: "'a option \<Rightarrow> 'a \<Rightarrow> 'a" where
  "or_else v d = (case v of None \<Rightarrow> d | Some x \<Rightarrow> x)"

definition overwrite :: "'a option \<Rightarrow> 'a option \<Rightarrow> 'a option" where
  "overwrite new old = (case new of None \<Rightarrow> old | Some x \<Rightarrow> Some x)"

section \<open>Subject routes\<close>

text \<open>
  \<open>Subject.create(req.body)\<close>, line 90: the schema default \<open>resourceCount: 0\<close> applies
  when the body has no such key. \<open>now\<close> is the clock at creation and \<open>i\<close> the \<open>_id\<close> of the
  new document; the collection's unique index on \<open>_id\<close> refuses a second document with it.
\<close>

definition newSubject :: "int \<Rightarrow> oid \<Rightarrow> SubjectBody \<Rightarrow> Subject" where
  "newSubject now i b =
     \<lparr>s_id = i, s_name = sb_name b, s_slug = sb_slug b, s_icon = sb_icon b,
      s_category = sb_category b, s_description = sb_description b,
      resourceCount = or_else (sb_resourceCount b) 0, s_createdAt = now\<rparr>"

definition createSubject :: "int \<Rightarrow> oid \<Rightarrow> SubjectBody \<Rightarrow> store \<Rightarrow> error + (Subject \<times> store)" where
  "createSubject now i b st =
     (if i \<in> s_id ` set (subjects st) then Inl DuplicateKey
      else let s = newSubject now i b
           in Inr (s, st\<lparr>subjects := subjects st @ [s]\<rparr>))"

definition setSubject :: "SubjectBody \<Rightarrow> Subject \<Rightarrow> Subject" where
  "setSubject b s =
     s\<lparr>s_name := overwrite (sb_name b) (s_name s),
       s_slug := overwrite (sb_slug b) (s_slug s),
       s_icon := overwrite (sb_icon b) (s_icon s),
       s_category := overwrite (sb_category b) (s_category s),
       s_description := overwrite (sb_description b) (s_description s),
       resourceCount := or_else (sb_resourceCount b) (resourceCount s)\<rparr>"

text \<open>\<open>PUT /api/subjects/:id\<close>, lines 98-106.\<close>

definition updateSubject :: "idparam \<Rightarrow> SubjectBody \<Rightarrow> store \<Rightarrow> error + (Subject \<times> store)" where
  "updateSubject p b st =
     (case p of
        Malformed \<Rightarrow> Inl CastError
      | ObjectId i \<Rightarrow>
          (case findOne (\<lambda>s. s_id s = i) (subjects st) of
             None \<Rightarrow> Inl NotFound
           | Some s \<Rightarrow>
               Inr (setSubject b s,
                    st\<lparr>subjects := updateOne (\<lambda>s. s_id s = i) (setSubject b) (subjects st)\<rparr>)))"

text \<open>\<open>DELETE /api/subjects/:id\<close>, lines 109-117: no cascade to the resources.\<close>

definition deleteSubject :: "idparam \<Rightarrow> store \<Rightarrow> error + (Subject \<times> store)" where
  "deleteSubject p st =
     (case p of
        Malformed \<Rightarrow> Inl CastError
      | ObjectId i \<Rightarrow>
          (case findOne (\<lambda>s. s_id s = i) (subjects st) of
             None \<Rightarrow> Inl NotFound
           | Some s \<Rightarrow> Inr (s, st\<lparr>subjects := deleteOne (\<lambda>s. s_id s = i) (subjects st)\<rparr>)))"

section \<open>Resource routes\<close>

definition newResource :: "int \<Rightarrow> oid \<Rightarrow> ResourceBody \<Rightarrow> Resource" where
  "newResource now i b =
     \<lparr>r_id = i, r_name = rb_name b, r_subject = rb_subject b, r_type = rb_type b,
      r_description = rb_description b, r_link = rb_link b, r_fileSize = rb_fileSize b,
      r_year = rb_year b, downloads = or_else (rb_downloads b) 0,
      views = or_else (rb_views b) 0, r_createdAt = now\<rparr>"

text \<open>
  \<open>POST /api/resources\<close>, lines 167-175: the document is created, then the count of the
  subject of that name is incremented.
\<close>

definition createResource :: "int \<Rightarrow> oid \<Rightarrow> ResourceBody \<Rightarrow> store \<Rightarrow> error + (Resource \<times> store)" where
  "createResource now i b st =
     (if i \<in> r_id ` set (resources st) then Inl DuplicateKey
      else let r = newResource now i b
           in Inr (r, \<lparr>subjects = adjustResourceCount (r_subject r) 1 (subjects st),
                      resources = resources st @ [r]\<rparr>))"

definition setResource :: "ResourceBody \<Rightarrow> Resource \<Rightarrow> Resource" where
  "setResource b r =
     r\<lparr>r_name := overwrite (rb_name b) (r_name r),
       r_subject := overwrite (rb_subject b) (r_subject r),
       r_type := overwrite (rb_type b) (r_type r),
       r_description := overwrite (rb_description b) (r_description r),
       r_link := overwrite (rb_link b) (r_link r),
       r_fileSize := overwrite (rb_fileSize b) (r_fileSize r),
       r_year := overwrite (rb_year b) (r_year r),
       downloads := or_else (rb_downloads b) (downloads r),
       views := or_else (rb_views b) (views r)\<rparr>"

text \<open>\<open>PUT /api/resources/:id\<close>, lines 178-186: no subject count is touched.\<close>

definition updateResource :: "idparam \<Rightarrow> ResourceBody \<Rightarrow> store \<Rightarrow> error + (Resource \<times> store)" where
  "updateResource p b st =
     (case p of
        Malformed \<Rightarrow> Inl CastError
      | ObjectId i \<Rightarrow>
          (case findOne (\<lambda>r. r_id r = i) (resources st) of
             None \<Rightarrow> Inl NotFound
           | Some r \<Rightarrow>
               Inr (setResource b r,
                    st\<lparr>resources := updateOne (\<lambda>r. r_id r = i) (setResource b) (resources st)\<rparr>)))"

text \<open>
  \<open>DELETE /api/resources/:id\<close>, lines 189-198: the document is removed, then the count of
  the subject of its name is decremented, whatever the count is.
\<close>

definition deleteResource :: "idparam \<Rightarrow> store \<Rightarrow> error + (Resource \<times> store)" where
  "deleteResource p st =
     (case p of
        Malformed \<Rightarrow> Inl CastError
      | ObjectId i \<Rightarrow>
          (case findOne (\<lambda>r. r_id r = i) (resources st) of
             None \<Rightarrow> Inl NotFound
           | Some r \<Rightarrow>
               Inr (r, \<lparr>subjects = adjustResourceCount (r_subject r) (- 1) (subjects st),
                        resources = deleteOne (\<lambda>r. r_id r = i) (resources st)\<rparr>)))"

text \<open>
  \<open>GET /api/resources/:id\<close>, lines 152-164: \<open>resource.views += 1\<close>, \<open>save()\<close>, and the
  saved document is the answer.
\<close>

definition getResource :: "idparam \<Rightarrow> store \<Rightarrow> error + (Resource \<times> store)" where
  "getResource p st =
     (case p of
        Malformed \<Rightarrow> Inl CastError
      | ObjectId i \<Rightarrow>
          (case findOne (\<lambda>r. r_id r = i) (resources st) of
             None \<Rightarrow> Inl NotFound
           | Some r \<Rightarrow>
               (let r' = r\<lparr>views := views r + 1\<rparr>
                in Inr (r', st\<lparr>resources := updateOne (\<lambda>r. r_id r = i) (\<lambda>_. r') (resources st)\<rparr>))))"

text \<open>
  \<open>POST /api/resources/:id/download\<close>, lines 201-213: \<open>resource.downloads += 1\<close>, \<open>save()\<close>,
  and the answer is the new number of downloads.
\<close>

definition trackDownload :: "idparam \<Rightarrow> store \<Rightarrow> error + (int \<times> store)" where
  "trackDownload p st =
     (case p of
        Malformed \<Rightarrow> Inl CastError
      | ObjectId i \<Rightarrow>
          (case findOne (\<lambda>r. r_id r = i) (resources st) of
             None \<Rightarrow> Inl NotFound
           | Some r \<Rightarrow>
               (let r' = r\<lparr>downloads := downloads r + 1\<rparr>
                in Inr (downloads r',
                        st\<lparr>resources := updateOne (\<lambda>r. r_id r = i) (\<lambda>_. r') (resources st)\<rparr>))))"

section \<open>Listing\<close>

subsection \<open>Query-string values\<close>








subsection \<open>Regular expressions\<close>



definition to_lower :: "char \<Rightarrow> char" where
  "to_lower c =
     (let n = of_char c :: nat in if 65 \<le> n \<and> n \<le> 90 then char_of (n + 32) else c)"








subsection \<open>\<open>GET /api/subjects\<close>, lines 62-74\<close>


record SubjectList =
  sl_count :: nat
  sl_subjects :: "Subject list"



subsection \<open>\<open>GET /api/resources\<close>, lines 122-149\<close>






section \<open>Routing\<close>

text \<open>
  The middleware chain of \<open>server.js\<close> in the order it is registered: \<open>cors()\<close> (line 13)
  answers every \<open>OPTIONS\<close> request itself; \<open>express.json()\<close> (line 14) raises on a body it
  cannot parse, which the error handler (lines 245-248) answers; then the API routes; then
  the frontend (lines 238-242), which answers every remaining \<open>GET\<close> and \<open>HEAD\<close>; and last
  the 404 handler (lines 251-253). A path is its list of segments; route paths match
  without case, and a route registered with \<open>app.get\<close> also answers \<open>HEAD\<close>.
\<close>

datatype http_method = GET | HEAD | POST | PUT | DELETE | PATCH | OPTIONS

record request =
  req_method :: http_method
  req_path :: "string list"
  req_body_ok :: bool

datatype route =
    Health | Stats
  | SubjectList | SubjectBySlug string | SubjectCreate | SubjectUpdate string | SubjectDelete string
  | ResourceList | ResourceById string | ResourceCreate | ResourceUpdate string
  | ResourceDelete string | ResourceDownload string

datatype response =
    Preflight
  | Json nat bool string
  | Handled route
  | StaticFile "string list"
  | IndexHtml

definition seg :: "string \<Rightarrow> string \<Rightarrow> bool" where
  "seg a b = (map to_lower a = map to_lower b)"

definition is_get :: "http_method \<Rightarrow> bool" where
  "is_get m = (m = GET \<or> m = HEAD)"

fun match_route :: "http_method \<Rightarrow> string list \<Rightarrow> route option" where
  "match_route m [a, b] =
     (if \<not> seg a ''api'' then None
      else if seg b ''health'' \<and> is_get m then Some Health
      else if seg b ''subjects'' \<and> is_get m then Some SubjectList
      else if seg b ''subjects'' \<and> m = POST then Some SubjectCreate
      else if seg b ''resources'' \<and> is_get m then Some ResourceList
      else if seg b ''resources'' \<and> m = POST then Some ResourceCreate
      else if seg b ''stats'' \<and> is_get m then Some Stats
      else None)"
| "match_route m [a, b, c] =
     (if \<not> seg a ''api'' then None
      else if seg b ''subjects'' \<and> is_get m then Some (SubjectBySlug c)
      else if seg b ''subjects'' \<and> m = PUT then Some (SubjectUpdate c)
      else if seg b ''subjects'' \<and> m = DELETE then Some (SubjectDelete c)
      else if seg b ''resources'' \<and> is_get m then Some (ResourceById c)
      else if seg b ''resources'' \<and> m = PUT then Some (ResourceUpdate c)
      else if seg b ''resources'' \<and> m = DELETE then Some (ResourceDelete c)
      else None)"
| "match_route m [a, b, c, d] =
     (if seg a ''api'' \<and> seg b ''resources'' \<and> seg d ''download'' \<and> m = POST
      then Some (ResourceDownload c) else None)"
| "match_route m p = None"

text \<open>
  \<open>files\<close> tells whether \<open>express.static\<close> finds a file of the \<open>build\<close> directory for a
  path. \<open>sendFile\<close> of a missing \<open>index.html\<close> passes its error to the error handler.
\<close>

definition dispatch :: "(string list \<Rightarrow> bool) \<Rightarrow> request \<Rightarrow> response" where
  "dispatch files rq =
     (if req_method rq = OPTIONS then Preflight
      else if \<not> req_body_ok rq then Json 500 False ''Something went wrong!''
      else case match_route (req_method rq) (req_path rq) of
             Some r \<Rightarrow> Handled r
           | None \<Rightarrow>
               if is_get (req_method rq) then
                 (if files (req_path rq) then StaticFile (req_path rq)
                  else if files [''index.html''] then IndexHtml
                  else Json 500 False ''Something went wrong!'')
               else Json 404 False ''Route not found'')"

section \<open>Sequences of requests\<close>

datatype op =
    CreateSubject int oid SubjectBody
  | UpdateSubject idparam SubjectBody
  | DeleteSubject idparam
  | CreateResource int oid ResourceBody
  | UpdateResource idparam ResourceBody
  | DeleteResource idparam
  | GetResource idparam
  | TrackDownload idparam

datatype result = OfSubject Subject | OfResource Resource | OfDownloads int

text \<open>A request that fails leaves the store as it was.\<close>

definition outcome :: "('a \<Rightarrow> result) \<Rightarrow> store \<Rightarrow> error + ('a \<times> store) \<Rightarrow> (error + result) \<times> store" where
  "outcome k st x = (case x of Inl e \<Rightarrow> (Inl e, st) | Inr (v, st') \<Rightarrow> (Inr (k v), st'))"

fun step :: "op \<Rightarrow> store \<Rightarrow> (error + result) \<times> store" where
  "step (CreateSubject now i b) st = outcome OfSubject st (createSubject now i b st)"
| "step (UpdateSubject p b) st = outcome OfSubject st (updateSubject p b st)"
| "step (DeleteSubject p) st = outcome OfSubject st (deleteSubject p st)"
| "step (CreateResource now i b) st = outcome OfResource st (createResource now i b st)"
| "step (UpdateResource p b) st = outcome OfResource st (updateResource p b st)"
| "step (DeleteResource p) st = outcome OfResource st (deleteResource p st)"
| "step (GetResource p) st = outcome OfResource st (getResource p st)"
| "step (TrackDownload p) st = outcome OfDownloads st (trackDownload p st)"

text \<open>The requests of a sequence with their answers, and the store they leave.\<close>

fun run :: "op list \<Rightarrow> store \<Rightarrow> (op \<times> (error + result)) list \<times> store" where
  "run [] st = ([], st)"
| "run (x # xs) st =
     (let (a, st') = step x st; (tr, st'') = run xs st' in ((x, a) # tr, st''))"

text \<open>
  Counting the answers of a sequence: the resources created with subject name \<open>n\<close>, and
  the resources of subject name \<open>n\<close> that were deleted.
\<close>

fun created_for :: "string option \<Rightarrow> op \<times> (error + result) \<Rightarrow> bool" where
  "created_for n (CreateResource now i b, Inr (OfResource r)) = (r_subject r = n)"
| "created_for n e = False"

fun deleted_for :: "string option \<Rightarrow> op \<times> (error + result) \<Rightarrow> bool" where
  "deleted_for n (DeleteResource p, Inr (OfResource r)) = (r_subject r = n)"
| "deleted_for n e = False"

fun resource_write :: "op \<Rightarrow> bool" where
  "resource_write (CreateResource now i b) = True"
| "resource_write (DeleteResource p) = True"
| "resource_write x = False"

text \<open>The counters a request body sets, if any, are not negative.\<close>

fun nonneg_body :: "op \<Rightarrow> bool" where
  "nonneg_body (CreateResource now i b) =
     (0 \<le> or_else (rb_downloads b) 0 \<and> 0 \<le> or_else (rb_views b) 0)"
| "nonneg_body (UpdateResource p b) =
     (0 \<le> or_else (rb_downloads b) 0 \<and> 0 \<le> or_else (rb_views b) 0)"
| "nonneg_body x = True"



text \<open>The invariant of the two counters of every resource.\<close>

definition counters_ok :: "store \<Rightarrow> bool" where
  "counters_ok st = list_all (\<lambda>r. 0 \<le> downloads r \<and> 0 \<le> views r) (resources st)"

text \<open>The store's own invariant: an \<open>_id\<close> names one document of its collection.\<close>

definition ids_unique :: "store \<Rightarrow> bool" where
  "ids_unique st = (distinct (map s_id (subjects st)) \<and> distinct (map r_id (resources st)))"

section \<open>Example data\<close>

definition no_subject_body :: SubjectBody where
  "no_subject_body =
     \<lparr>sb_name = None, sb_slug = None, sb_icon = None, sb_category = None,
      sb_description = None, sb_resourceCount = None\<rparr>"

definition no_resource_body :: ResourceBody where
  "no_resource_body =
     \<lparr>rb_name = None, rb_subject = None, rb_type = None, rb_description = None,
      rb_link = None, rb_fileSize = None, rb_year = None, rb_downloads = None,
      rb_views = None\<rparr>"

definition math_body :: SubjectBody where
  "math_body = no_subject_body\<lparr>sb_name := Some ''Math''\<rparr>"

definition calc_body :: ResourceBody where
  "calc_body = no_resource_body\<lparr>rb_name := Some ''Calc Notes'', rb_subject := Some ''Math''\<rparr>"

definition calc_notes :: Resource where
  "calc_notes =
     \<lparr>r_id = 7, r_name = Some ''Calc Notes'', r_subject = Some ''Math'',
      r_type = Some ''notes'', r_description = None, r_link = None, r_fileSize = None,
      r_year = Some 2020, downloads = 3, views = 4, r_createdAt = 100\<rparr>"

definition named :: "oid \<Rightarrow> string \<Rightarrow> Subject" where
  "named i n =
     \<lparr>s_id = i, s_name = Some n, s_slug = None, s_icon = None, s_category = None,
      s_description = None, resourceCount = 0, s_createdAt = 0\<rparr>"


definition two_maths :: store where
  "two_maths = \<lparr>subjects = [named 1 ''Math'', named 2 ''Math''], resources = [calc_notes]\<rparr>"





definition math_ops :: "op list" where
  "math_ops =
     [CreateResource 0 1 calc_body, CreateResource 0 2 calc_body, DeleteResource (ObjectId 7),
      DeleteResource (ObjectId 9), CreateResource 0 3 calc_body]"

definition orphan_ops :: "op list" where
  "orphan_ops =
     [CreateResource 0 1 calc_body, CreateSubject 1 1 math_body, DeleteResource (ObjectId 1)]"

definition busy_ops :: "op list" where
  "busy_ops =
     [CreateResource 0 1 calc_body, GetResource (ObjectId 1), TrackDownload (ObjectId 1),
      UpdateResource (ObjectId 1) (no_resource_body\<lparr>rb_views := Some 0\<rparr>),
      TrackDownload (ObjectId 1), GetResource (ObjectId 2)]"



definition only_index :: "string list \<Rightarrow> bool" where
  "only_index p = (p = [''index.html''])"

section \<open>Facts about the store primitives\<close>



lemma findOne_Some:
  "findOne P xs = Some x \<Longrightarrow> x \<in> set xs \<and> P x"
  unfolding findOne_def by (induction xs) (auto split: if_splits)


lemma findOne_updateOne:
  "findOne P xs = Some x \<Longrightarrow> P (g x) \<Longrightarrow> findOne P (updateOne P g xs) = Some (g x)"
  unfolding findOne_def by (induction xs) (auto split: if_splits)

lemma set_updateOne:
  "set (updateOne P f xs) \<subseteq> set xs \<union> f ` {x \<in> set xs. P x}"
  by (induction xs) auto

lemma set_deleteOne: "set (deleteOne P xs) \<subseteq> set xs"
  by (induction xs) auto

section \<open>Identifiers stay unique\<close>

text \<open>
  No request makes two documents of a collection share an \<open>_id\<close>, so every store reached
  from the empty one meets the hypothesis of unique identifiers made below.
\<close>

lemma map_updateOne:
  "\<forall>x. P x \<longrightarrow> g (f x) = g x \<Longrightarrow> map g (updateOne P f xs) = map g xs"
  by (induction xs) auto

lemma distinct_deleteOne:
  "distinct (map g xs) \<Longrightarrow> distinct (map g (deleteOne P xs))"
proof (induction xs)
  case Nil
  then show ?case by simp
next
  case (Cons x xs)
  have "set (deleteOne P xs) \<subseteq> set xs"
    by (rule set_deleteOne)
  with Cons show ?case by auto
qed

lemma map_adjust: "map s_id (adjustResourceCount n d ss) = map s_id ss"
  unfolding adjustResourceCount_def by (rule map_updateOne) simp

lemma step_ids_unique:
  assumes "ids_unique st"
  shows "ids_unique (snd (step x st))"
proof (cases x)
  case (CreateSubject now i b)
  with assms show ?thesis
    by (auto simp: createSubject_def outcome_def ids_unique_def Let_def newSubject_def)
next
  case (UpdateSubject p b)
  have "map s_id (updateOne P (setSubject b) (subjects st)) = map s_id (subjects st)" for P
    by (rule map_updateOne) (simp add: setSubject_def)
  with UpdateSubject assms show ?thesis
    by (simp add: updateSubject_def outcome_def ids_unique_def split: idparam.split option.split)
next
  case (DeleteSubject p)
  with assms show ?thesis
    by (simp add: deleteSubject_def outcome_def ids_unique_def distinct_deleteOne
        split: idparam.split option.split)
next
  case (CreateResource now i b)
  with assms show ?thesis
    by (auto simp: createResource_def outcome_def ids_unique_def Let_def newResource_def map_adjust)
next
  case (UpdateResource p b)
  have "map r_id (updateOne P (setResource b) (resources st)) = map r_id (resources st)" for P
    by (rule map_updateOne) (simp add: setResource_def)
  with UpdateResource assms show ?thesis
    by (simp add: updateResource_def outcome_def ids_unique_def split: idparam.split option.split)
next
  case (DeleteResource p)
  with assms show ?thesis
    by (simp add: deleteResource_def outcome_def ids_unique_def distinct_deleteOne map_adjust
        split: idparam.split option.split)
next
  case (GetResource p)
  have "map r_id (updateOne (\<lambda>y. r_id y = i) (\<lambda>_. r\<lparr>views := views r + 1\<rparr>) (resources st))
          = map r_id (resources st)"
    if "findOne (\<lambda>y. r_id y = i) (resources st) = Some r" for i r
    using findOne_Some [OF that] by (intro map_updateOne) simp
  with GetResource assms show ?thesis
    by (simp add: getResource_def outcome_def ids_unique_def Let_def
        split: idparam.split option.split)
next
  case (TrackDownload p)
  have "map r_id (updateOne (\<lambda>y. r_id y = i) (\<lambda>_. r\<lparr>downloads := downloads r + 1\<rparr>) (resources st))
          = map r_id (resources st)"
    if "findOne (\<lambda>y. r_id y = i) (resources st) = Some r" for i r
    using findOne_Some [OF that] by (intro map_updateOne) simp
  with TrackDownload assms show ?thesis
    by (simp add: trackDownload_def outcome_def ids_unique_def Let_def
        split: idparam.split option.split)
qed

lemma run_ids_unique: "ids_unique st \<Longrightarrow> ids_unique (snd (run ops st))"
proof (induction ops arbitrary: st)
  case Nil
  then show ?case by simp
next
  case (Cons x ops)
  from Cons.prems have "ids_unique (snd (step x st))"
    by (rule step_ids_unique)
  then have "ids_unique (snd (run ops (snd (step x st))))"
    by (rule Cons.IH)
  then show ?case
    by (simp add: case_prod_unfold Let_def)
qed

lemma reachable_ids_unique: "ids_unique (snd (run ops empty_store))"
  by (rule run_ids_unique) (simp add: ids_unique_def empty_store_def)

section \<open>Counters of a resource\<close>





section \<open>Subject counts\<close>

text \<open>
  C8 does not hold of every body: one that carries \<open>resourceCount\<close> sets the count of the
  new subject, and the schema's default is not applied.
\<close>

theorem createSubject_custom_count:
  "createSubject 0 1 (math_body\<lparr>sb_resourceCount := Some 5\<rparr>) empty_store
     = Inr (named 1 ''Math''\<lparr>resourceCount := 5\<rparr>,
            \<lparr>subjects = [named 1 ''Math''\<lparr>resourceCount := 5\<rparr>], resources = []\<rparr>)
   \<and> resourceCount (named 1 ''Math''\<lparr>resourceCount := 5\<rparr>) \<noteq> 0"
  by (simp add: createSubject_def newSubject_def math_body_def no_subject_body_def
      empty_store_def named_def or_else_def Let_def)

text \<open>
  C8, amended. When the body has no \<open>resourceCount\<close> key and the \<open>_id\<close> is new,
  \<open>POST /api/subjects\<close> stores a subject whose \<open>resourceCount\<close> is 0.
\<close>

theorem createSubject_default_count:
  "sb_resourceCount b = None \<and> i \<notin> s_id ` set (subjects st) \<longrightarrow>
     (\<exists>s. createSubject now i b st = Inr (s, st\<lparr>subjects := subjects st @ [s]\<rparr>)
          \<and> s_id s = i \<and> resourceCount s = 0)"
  by (simp add: createSubject_def newSubject_def or_else_def Let_def)

theorem createSubject_default_count_witness:
  "sb_resourceCount math_body = None \<and> 1 \<notin> s_id ` set (subjects empty_store)
   \<and> createSubject 5 1 math_body empty_store
       = Inr (named 1 ''Math''\<lparr>s_createdAt := 5\<rparr>,
              \<lparr>subjects = [named 1 ''Math''\<lparr>s_createdAt := 5\<rparr>], resources = []\<rparr>)
   \<and> resourceCount (named 1 ''Math''\<lparr>s_createdAt := 5\<rparr>) = 0"
  using createSubject_default_count [of math_body 1 empty_store 5]
  by (simp add: createSubject_def newSubject_def math_body_def no_subject_body_def
      empty_store_def named_def or_else_def Let_def)

lemma updateOne_position:
  "\<exists>x \<in> set xs. P x \<Longrightarrow>
   \<exists>k < length xs. P (xs ! k) \<and> (\<forall>j < k. \<not> P (xs ! j)) \<and> updateOne P f xs = xs[k := f (xs ! k)]"
proof (induction xs)
  case Nil
  then show ?case by simp
next
  case (Cons x xs)
  show ?case
  proof (cases "P x")
    case True
    then have "P ((x # xs) ! 0) \<and> (\<forall>j < 0. \<not> P ((x # xs) ! j))
        \<and> updateOne P f (x # xs) = (x # xs)[0 := f ((x # xs) ! 0)]"
      by simp
    then show ?thesis by (intro exI [of _ 0]) simp
  next
    case False
    with Cons.prems have "\<exists>y \<in> set xs. P y" by auto
    from Cons.IH [OF this] obtain k where k: "k < length xs" "P (xs ! k)"
      "\<forall>j < k. \<not> P (xs ! j)" "updateOne P f xs = xs[k := f (xs ! k)]"
      by blast
    have "\<forall>j < Suc k. \<not> P ((x # xs) ! j)"
      using False k(3) by (auto simp: less_Suc_eq_0_disj)
    with k False show ?thesis
      by (intro exI [of _ "Suc k"]) simp
  qed
qed

lemma filter_two_nonempty:
  "2 \<le> length (filter P xs) \<Longrightarrow> \<exists>x \<in> set xs. P x"
  by (cases "filter P xs") (auto dest: filter_eq_ConsD)

text \<open>
  C9. When two or more subjects have the name \<open>n\<close>, there is one position \<open>k\<close> of the
  collection, holding a subject of that name, such that creating a resource of subject
  \<open>n\<close> changes the collection at \<open>k\<close> only, adding 1 to that subject's \<open>resourceCount\<close>,
  and deleting a resource of subject \<open>n\<close> changes it at \<open>k\<close> only, subtracting 1.
\<close>

theorem one_subject_adjusted:
  "2 \<le> length (filter (\<lambda>s. s_name s = n) (subjects st)) \<longrightarrow>
     (\<exists>k < length (subjects st).
        s_name (subjects st ! k) = n
        \<and> (rb_subject b = n \<and> i \<notin> r_id ` set (resources st) \<longrightarrow>
             (\<exists>r st'. createResource now i b st = Inr (r, st')
                \<and> subjects st' =
                    (subjects st)[k := (subjects st ! k)
                       \<lparr>resourceCount := resourceCount (subjects st ! k) + 1\<rparr>]))
        \<and> (findOne (\<lambda>x. r_id x = j) (resources st) = Some r \<and> r_subject r = n \<longrightarrow>
             (\<exists>st'. deleteResource (ObjectId j) st = Inr (r, st')
                \<and> subjects st' =
                    (subjects st)[k := (subjects st ! k)
                       \<lparr>resourceCount := resourceCount (subjects st ! k) - 1\<rparr>])))"
proof
  assume "2 \<le> length (filter (\<lambda>s. s_name s = n) (subjects st))"
  then have ex: "\<exists>s \<in> set (subjects st). s_name s = n"
    by (rule filter_two_nonempty)
  let ?P = "\<lambda>s. s_name s = n"
  from updateOne_position [OF ex, of "\<lambda>s. s\<lparr>resourceCount := resourceCount s + 1\<rparr>"]
  obtain k where k: "k < length (subjects st)" "?P (subjects st ! k)" "\<forall>j < k. \<not> ?P (subjects st ! j)"
    "adjustResourceCount n 1 (subjects st)
       = (subjects st)[k := (subjects st ! k)\<lparr>resourceCount := resourceCount (subjects st ! k) + 1\<rparr>]"
    unfolding adjustResourceCount_def by blast
  from updateOne_position [OF ex, of "\<lambda>s. s\<lparr>resourceCount := resourceCount s + (- 1)\<rparr>"]
  obtain k' where k': "k' < length (subjects st)" "?P (subjects st ! k')" "\<forall>j < k'. \<not> ?P (subjects st ! j)"
    "adjustResourceCount n (- 1) (subjects st)
       = (subjects st)[k' := (subjects st ! k')\<lparr>resourceCount := resourceCount (subjects st ! k') + (- 1)\<rparr>]"
    unfolding adjustResourceCount_def by blast
  have "k' = k"
  proof (rule ccontr)
    assume "k' \<noteq> k"
    then consider "k' < k" | "k < k'" by linarith
    then show False
    proof cases
      case 1
      with k(3) k'(2) show False by blast
    next
      case 2
      with k'(3) k(2) show False by blast
    qed
  qed
  with k' have d: "adjustResourceCount n (- 1) (subjects st)
       = (subjects st)[k := (subjects st ! k)\<lparr>resourceCount := resourceCount (subjects st ! k) - 1\<rparr>]"
    by simp
  show "\<exists>k < length (subjects st).
        s_name (subjects st ! k) = n
        \<and> (rb_subject b = n \<and> i \<notin> r_id ` set (resources st) \<longrightarrow>
             (\<exists>r st'. createResource now i b st = Inr (r, st')
                \<and> subjects st' =
                    (subjects st)[k := (subjects st ! k)
                       \<lparr>resourceCount := resourceCount (subjects st ! k) + 1\<rparr>]))
        \<and> (findOne (\<lambda>x. r_id x = j) (resources st) = Some r \<and> r_subject r = n \<longrightarrow>
             (\<exists>st'. deleteResource (ObjectId j) st = Inr (r, st')
                \<and> subjects st' =
                    (subjects st)[k := (subjects st ! k)
                       \<lparr>resourceCount := resourceCount (subjects st ! k) - 1\<rparr>]))"
    using k(1,2,4) d
    by (intro exI [of _ k]) (simp add: createResource_def deleteResource_def newResource_def Let_def)
qed

theorem one_subject_adjusted_witness:
  "2 \<le> length (filter (\<lambda>s. s_name s = Some ''Math'') (subjects two_maths))
   \<and> rb_subject calc_body = Some ''Math'' \<and> 1 \<notin> r_id ` set (resources two_maths)
   \<and> findOne (\<lambda>x. r_id x = 7) (resources two_maths) = Some calc_notes
   \<and> r_subject calc_notes = Some ''Math''
   \<and> map resourceCount (subjects (snd (step (CreateResource 0 1 calc_body) two_maths))) = [1, 0]
   \<and> map resourceCount (subjects (snd (step (DeleteResource (ObjectId 7)) two_maths))) = [- 1, 0]"
  using one_subject_adjusted [where n = "Some ''Math''" and st = two_maths and b = calc_body
      and i = 1 and j = 7 and r = calc_notes and now = 0]
  by (simp add: two_maths_def calc_body_def no_resource_body_def calc_notes_def named_def
      findOne_def createResource_def deleteResource_def newResource_def adjustResourceCount_def
      outcome_def or_else_def Let_def)

section \<open>The count of a subject over a sequence of requests\<close>

lemma findOne_updateOne_other:
  "\<forall>x. Q x \<longrightarrow> \<not> P x \<and> \<not> P (f x) \<Longrightarrow> findOne P (updateOne Q f xs) = findOne P xs"
  unfolding findOne_def by (induction xs) auto

lemma findOne_adjust:
  "findOne (\<lambda>s. s_name s = n) ss = Some S \<Longrightarrow>
   findOne (\<lambda>s. s_name s = n) (adjustResourceCount m d ss)
     = Some (S\<lparr>resourceCount := resourceCount S + (if m = n then d else 0)\<rparr>)"
proof (cases "m = n")
  case True
  assume f: "findOne (\<lambda>s. s_name s = n) ss = Some S"
  then have "s_name S = n"
    using findOne_Some [of "\<lambda>s. s_name s = n" ss S] by simp
  with findOne_updateOne [OF f, of "\<lambda>s. s\<lparr>resourceCount := resourceCount s + d\<rparr>"] True
  show ?thesis
    by (simp add: adjustResourceCount_def)
next
  case False
  assume f: "findOne (\<lambda>s. s_name s = n) ss = Some S"
  have "findOne (\<lambda>s. s_name s = n) (adjustResourceCount m d ss) = findOne (\<lambda>s. s_name s = n) ss"
    unfolding adjustResourceCount_def
    using False by (intro findOne_updateOne_other) simp
  with f False show ?thesis by simp
qed

lemma step_count:
  assumes "resource_write x" and "findOne (\<lambda>s. s_name s = n) (subjects st) = Some S"
  shows "findOne (\<lambda>s. s_name s = n) (subjects (snd (step x st)))
           = Some (S\<lparr>resourceCount := resourceCount S
                 + (if created_for n (x, fst (step x st)) then 1 else 0)
                 - (if deleted_for n (x, fst (step x st)) then 1 else 0)\<rparr>)"
proof (cases x)
  case (CreateResource now i b)
  show ?thesis
  proof (cases "i \<in> r_id ` set (resources st)")
    case True
    with CreateResource assms(2) show ?thesis
      by (simp add: createResource_def outcome_def)
  next
    case False
    with CreateResource show ?thesis
      using findOne_adjust [OF assms(2), of "rb_subject b" 1]
      by (simp add: createResource_def outcome_def Let_def newResource_def)
  qed
next
  case (DeleteResource p)
  show ?thesis
  proof (cases p)
    case Malformed
    with DeleteResource assms(2) show ?thesis
      by (simp add: deleteResource_def outcome_def)
  next
    case (ObjectId i)
    show ?thesis
    proof (cases "findOne (\<lambda>r. r_id r = i) (resources st)")
      case None
      with DeleteResource ObjectId assms(2) show ?thesis
        by (simp add: deleteResource_def outcome_def)
    next
      case (Some r)
      with DeleteResource ObjectId show ?thesis
        using findOne_adjust [OF assms(2), of "r_subject r" "- 1"]
        by (simp add: deleteResource_def outcome_def)
    qed
  qed
qed (use assms(1) in simp_all)

text \<open>
  C1 does not hold of every subject: of two subjects named Math, a resource created with
  subject Math is counted on the first one only, and the second keeps its count.
\<close>

theorem second_subject_not_counted:
  "createResource 0 1 calc_body two_maths
     = Inr (newResource 0 1 calc_body,
            \<lparr>subjects = [named 1 ''Math''\<lparr>resourceCount := 1\<rparr>, named 2 ''Math''],
             resources = [calc_notes, newResource 0 1 calc_body]\<rparr>)
   \<and> r_subject (newResource 0 1 calc_body) = s_name (named 2 ''Math'')
   \<and> resourceCount (named 2 ''Math'') = 0
   \<and> map resourceCount (subjects (snd (step (CreateResource 0 1 calc_body) two_maths))) = [1, 0]"
  by (simp add: createResource_def two_maths_def calc_body_def no_resource_body_def
      calc_notes_def named_def newResource_def adjustResourceCount_def outcome_def Let_def
      or_else_def)

text \<open>
  C1, amended. Let \<open>S\<close> be the first subject of the collection with name \<open>n\<close> (the subject
  of that name, when names are unique). After any sequence of resource creations and
  deletions, \<open>S\<close> is as before but for its \<open>resourceCount\<close>, which is the count before plus
  the number of resources created with subject \<open>n\<close> minus the number of resources of
  subject \<open>n\<close> deleted; a request that fails counts for nothing.
\<close>

theorem resourceCount_net:
  "(\<forall>x \<in> set ops. resource_write x) \<and> findOne (\<lambda>s. s_name s = n) (subjects st) = Some S \<longrightarrow>
   findOne (\<lambda>s. s_name s = n) (subjects (snd (run ops st)))
     = Some (S\<lparr>resourceCount := resourceCount S
           + int (length (filter (created_for n) (fst (run ops st))))
           - int (length (filter (deleted_for n) (fst (run ops st))))\<rparr>)"
proof (induction ops arbitrary: st S)
  case Nil
  show ?case by simp
next
  case (Cons x ops)
  let ?a = "fst (step x st)" and ?st = "snd (step x st)"
  let ?S = "S\<lparr>resourceCount := resourceCount S
                 + (if created_for n (x, ?a) then 1 else 0)
                 - (if deleted_for n (x, ?a) then 1 else 0)\<rparr>"
  show ?case
  proof
    assume a: "(\<forall>y \<in> set (x # ops). resource_write y)
      \<and> findOne (\<lambda>s. s_name s = n) (subjects st) = Some S"
    then have w: "resource_write x" and ws: "\<forall>y \<in> set ops. resource_write y"
      and f: "findOne (\<lambda>s. s_name s = n) (subjects st) = Some S"
      by simp_all
    have s: "findOne (\<lambda>s. s_name s = n) (subjects ?st) = Some ?S"
      by (rule step_count [OF w f])
    have r: "run (x # ops) st = ((x, ?a) # fst (run ops ?st), snd (run ops ?st))"
      by (simp add: case_prod_unfold Let_def)
    from Cons.IH [of ?st ?S] ws s
    have "findOne (\<lambda>s. s_name s = n) (subjects (snd (run ops ?st)))
       = Some (?S\<lparr>resourceCount := resourceCount ?S
           + int (length (filter (created_for n) (fst (run ops ?st))))
           - int (length (filter (deleted_for n) (fst (run ops ?st))))\<rparr>)"
      by blast
    then show "findOne (\<lambda>s. s_name s = n) (subjects (snd (run (x # ops) st)))
       = Some (S\<lparr>resourceCount := resourceCount S
           + int (length (filter (created_for n) (fst (run (x # ops) st))))
           - int (length (filter (deleted_for n) (fst (run (x # ops) st))))\<rparr>)"
      unfolding r by simp
  qed
qed

theorem resourceCount_net_witness:
  "list_all resource_write math_ops
   \<and> findOne (\<lambda>s. s_name s = Some ''Math'') (subjects two_maths) = Some (named 1 ''Math'')
   \<and> length (filter (created_for (Some ''Math'')) (fst (run math_ops two_maths))) = 3
   \<and> length (filter (deleted_for (Some ''Math'')) (fst (run math_ops two_maths))) = 1
   \<and> findOne (\<lambda>s. s_name s = Some ''Math'') (subjects (snd (run math_ops two_maths)))
       = Some (named 1 ''Math''\<lparr>resourceCount := 2\<rparr>)"
proof -
  have 1: "\<forall>x \<in> set math_ops. resource_write x"
    by (simp add: math_ops_def)
  have 2: "findOne (\<lambda>s. s_name s = Some ''Math'') (subjects two_maths) = Some (named 1 ''Math'')"
    by (simp add: two_maths_def findOne_def named_def)
  have 3: "length (filter (created_for (Some ''Math'')) (fst (run math_ops two_maths))) = 3"
    by (simp add: math_ops_def two_maths_def calc_body_def no_resource_body_def calc_notes_def
      named_def findOne_def createResource_def deleteResource_def newResource_def
      adjustResourceCount_def outcome_def or_else_def Let_def)
  have 4: "length (filter (deleted_for (Some ''Math'')) (fst (run math_ops two_maths))) = 1"
    by (simp add: math_ops_def two_maths_def calc_body_def no_resource_body_def calc_notes_def
      named_def findOne_def createResource_def deleteResource_def newResource_def
      adjustResourceCount_def outcome_def or_else_def Let_def)
  from resourceCount_net [of math_ops "Some ''Math''" two_maths "named 1 ''Math''"] 1 2
  have "findOne (\<lambda>s. s_name s = Some ''Math'') (subjects (snd (run math_ops two_maths)))
     = Some (named 1 ''Math''\<lparr>resourceCount := resourceCount (named 1 ''Math'')
           + int (length (filter (created_for (Some ''Math'')) (fst (run math_ops two_maths))))
           - int (length (filter (deleted_for (Some ''Math'')) (fst (run math_ops two_maths))))\<rparr>)"
    by blast
  then have 5: "findOne (\<lambda>s. s_name s = Some ''Math'') (subjects (snd (run math_ops two_maths)))
       = Some (named 1 ''Math''\<lparr>resourceCount := 2\<rparr>)"
    unfolding 3 4 by (simp add: named_def)
  from 1 2 3 4 5 show ?thesis by (simp add: list_all_iff)
qed

section \<open>Signs of the counters\<close>

lemma step_counters_ok:
  assumes "counters_ok st" and "nonneg_body x"
  shows "counters_ok (snd (step x st))"
proof -
  let ?ok = "\<lambda>r. 0 \<le> downloads r \<and> 0 \<le> views r"
  from assms(1) have all: "\<forall>r \<in> set (resources st). ?ok r"
    by (simp add: counters_ok_def list_all_iff)
  have upd: "\<forall>r \<in> set (updateOne P f (resources st)). ?ok r"
    if "\<forall>r \<in> set (resources st). ?ok r \<longrightarrow> ?ok (f r)" for P f
    using set_updateOne [of P f "resources st"] all that by blast
  have del: "\<forall>r \<in> set (deleteOne P (resources st)). ?ok r" for P
    using set_deleteOne [of P "resources st"] all by blast
  show ?thesis
  proof (cases x)
    case (CreateSubject now i b)
    with assms(1) show ?thesis
      by (simp add: createSubject_def outcome_def counters_ok_def Let_def)
  next
    case (UpdateSubject p b)
    with assms(1) show ?thesis
      by (simp add: updateSubject_def outcome_def counters_ok_def
          split: idparam.split option.split)
  next
    case (DeleteSubject p)
    with assms(1) show ?thesis
      by (simp add: deleteSubject_def outcome_def counters_ok_def
          split: idparam.split option.split)
  next
    case (CreateResource now i b)
    with assms all show ?thesis
      by (simp add: createResource_def outcome_def counters_ok_def Let_def newResource_def
          list_all_iff)
  next
    case (UpdateResource p b)
    with assms(2) have "\<forall>r \<in> set (resources st). ?ok r \<longrightarrow> ?ok (setResource b r)"
      by (auto simp: setResource_def or_else_def split: option.splits)
    from upd [OF this] UpdateResource assms(1) show ?thesis
      by (simp add: updateResource_def outcome_def counters_ok_def list_all_iff
          split: idparam.split option.split)
  next
    case (DeleteResource p)
    with del assms(1) show ?thesis
      by (simp add: deleteResource_def outcome_def counters_ok_def list_all_iff
          split: idparam.split option.split)
  next
    case (GetResource p)
    show ?thesis
    proof (cases p)
      case Malformed
      with GetResource assms(1) show ?thesis
        by (simp add: getResource_def outcome_def)
    next
      case (ObjectId i)
      show ?thesis
      proof (cases "findOne (\<lambda>r. r_id r = i) (resources st)")
        case None
        with GetResource ObjectId assms(1) show ?thesis
          by (simp add: getResource_def outcome_def)
      next
        case (Some r)
        with all have "?ok r" using findOne_Some by fastforce
        then have "\<forall>y \<in> set (resources st). ?ok y \<longrightarrow> ?ok ((\<lambda>_. r\<lparr>views := views r + 1\<rparr>) y)"
          by simp
        from upd [OF this] GetResource ObjectId Some show ?thesis
          by (simp add: getResource_def outcome_def counters_ok_def list_all_iff Let_def)
      qed
    qed
  next
    case (TrackDownload p)
    show ?thesis
    proof (cases p)
      case Malformed
      with TrackDownload assms(1) show ?thesis
        by (simp add: trackDownload_def outcome_def)
    next
      case (ObjectId i)
      show ?thesis
      proof (cases "findOne (\<lambda>r. r_id r = i) (resources st)")
        case None
        with TrackDownload ObjectId assms(1) show ?thesis
          by (simp add: trackDownload_def outcome_def)
      next
        case (Some r)
        with all have "?ok r" using findOne_Some by fastforce
        then have "\<forall>y \<in> set (resources st). ?ok y \<longrightarrow> ?ok ((\<lambda>_. r\<lparr>downloads := downloads r + 1\<rparr>) y)"
          by simp
        from upd [OF this] TrackDownload ObjectId Some show ?thesis
          by (simp add: trackDownload_def outcome_def counters_ok_def list_all_iff Let_def)
      qed
    qed
  qed
qed

lemma run_counters_ok:
  "counters_ok st \<Longrightarrow> \<forall>x \<in> set ops. nonneg_body x \<Longrightarrow> counters_ok (snd (run ops st))"
proof (induction ops arbitrary: st)
  case Nil
  then show ?case by simp
next
  case (Cons x ops)
  from Cons.prems have "counters_ok (snd (step x st))"
    by (simp add: step_counters_ok)
  with Cons.prems have "counters_ok (snd (run ops (snd (step x st))))"
    by (intro Cons.IH) simp_all
  then show ?case
    by (simp add: case_prod_unfold Let_def)
qed

text \<open>
  C3 does not hold. A resource created for a subject name that no subject has yet, then
  the subject created, then the resource deleted: the subject's \<open>resourceCount\<close> is -1.
  And a body may set a negative counter.
\<close>

theorem counters_negative:
  "map resourceCount (subjects (snd (run orphan_ops empty_store))) = [- 1]
   \<and> map downloads (resources (snd (run
        [CreateResource 0 1 (calc_body\<lparr>rb_downloads := Some (- 5)\<rparr>)] empty_store))) = [- 5]"
  by (simp add: orphan_ops_def empty_store_def calc_body_def math_body_def no_resource_body_def
      no_subject_body_def findOne_def createResource_def createSubject_def deleteResource_def
      newResource_def newSubject_def adjustResourceCount_def outcome_def or_else_def Let_def)

text \<open>
  C3, amended. In every state reached from the empty store by requests whose bodies set
  no negative \<open>downloads\<close> or \<open>views\<close>, the \<open>downloads\<close> and \<open>views\<close> of every resource are
  non-negative. (Nothing is said of \<open>resourceCount\<close>.)
\<close>

theorem counters_nonneg:
  "(\<forall>x \<in> set ops. nonneg_body x) \<longrightarrow>
   (\<forall>r \<in> set (resources (snd (run ops empty_store))). 0 \<le> downloads r \<and> 0 \<le> views r)"
proof
  assume a: "\<forall>x \<in> set ops. nonneg_body x"
  have "counters_ok empty_store"
    by (simp add: counters_ok_def empty_store_def)
  from run_counters_ok [OF this a]
  show "\<forall>r \<in> set (resources (snd (run ops empty_store))). 0 \<le> downloads r \<and> 0 \<le> views r"
    by (simp add: counters_ok_def list_all_iff)
qed

theorem counters_nonneg_witness:
  "list_all nonneg_body busy_ops
   \<and> map downloads (resources (snd (run busy_ops empty_store))) = [2]
   \<and> map views (resources (snd (run busy_ops empty_store))) = [0]
   \<and> list_all (\<lambda>r. 0 \<le> downloads r \<and> 0 \<le> views r) (resources (snd (run busy_ops empty_store)))"
proof -
  have 1: "\<forall>x \<in> set busy_ops. nonneg_body x"
    by (simp add: busy_ops_def calc_body_def no_resource_body_def or_else_def)
  have 2: "map downloads (resources (snd (run busy_ops empty_store))) = [2]"
    "map views (resources (snd (run busy_ops empty_store))) = [0]"
    by (simp_all add: busy_ops_def empty_store_def calc_body_def no_resource_body_def
      findOne_def createResource_def updateResource_def getResource_def trackDownload_def
      setResource_def newResource_def adjustResourceCount_def outcome_def or_else_def
      overwrite_def Let_def)
  from counters_nonneg [of busy_ops] 1 2 show ?thesis
    by (simp add: list_all_iff)
qed

section \<open>Pages of resources\<close>









section \<open>Searching subjects\<close>









section \<open>Requests that match no route\<close>

text \<open>
  C7 does not hold of every request: an unmatched \<open>GET\<close> or \<open>HEAD\<close> is answered by the
  frontend, an \<open>OPTIONS\<close> request by \<open>cors()\<close>, and a request whose body does not parse
  by the error handler.
\<close>

theorem unmatched_not_404:
  "match_route GET [''foo''] = None
   \<and> dispatch only_index \<lparr>req_method = GET, req_path = [''foo''], req_body_ok = True\<rparr> = IndexHtml
   \<and> dispatch only_index \<lparr>req_method = HEAD, req_path = [''foo''], req_body_ok = True\<rparr> = IndexHtml
   \<and> match_route OPTIONS [''foo''] = None
   \<and> dispatch only_index \<lparr>req_method = OPTIONS, req_path = [''foo''], req_body_ok = True\<rparr> = Preflight
   \<and> match_route POST [''foo''] = None
   \<and> dispatch only_index \<lparr>req_method = POST, req_path = [''foo''], req_body_ok = False\<rparr>
       = Json 500 False ''Something went wrong!''"
  by (simp add: dispatch_def is_get_def only_index_def)

text \<open>
  C7, amended. A request that matches no API route, whose method is not \<open>GET\<close>, \<open>HEAD\<close>
  or \<open>OPTIONS\<close> and whose body the JSON parser accepts, is answered 404 with
  \<open>{success: false, message: 'Route not found'}\<close>.
\<close>

theorem unmatched_404:
  "req_method rq \<noteq> GET \<and> req_method rq \<noteq> HEAD \<and> req_method rq \<noteq> OPTIONS \<and> req_body_ok rq
   \<and> match_route (req_method rq) (req_path rq) = None \<longrightarrow>
     dispatch files rq = Json 404 False ''Route not found''"
  by (simp add: dispatch_def is_get_def)

theorem unmatched_404_witness:
  "match_route POST [''api'', ''nothing''] = None
   \<and> dispatch only_index \<lparr>req_method = POST, req_path = [''api'', ''nothing''], req_body_ok = True\<rparr>
       = Json 404 False ''Route not found''"
proof -
  have m: "match_route POST [''api'', ''nothing''] = None"
    by code_simp
  from unmatched_404 [of "\<lparr>req_method = POST, req_path = [''api'', ''nothing''], req_body_ok = True\<rparr>"
      only_index] m
  show ?thesis by simp
qed

end
